theory Spec2Isabelle
  imports Main
begin

section \<open>smalldb: an in-memory key-value store mirrored to one JSON file\<close>

text \<open>
  The development follows the three Go files of the package: the store (\<open>DB\<close>, with
  \<open>Open\<close>, \<open>Get\<close>, \<open>Set\<close>, \<open>Delete\<close>, \<open>GetAll\<close>, \<open>Transaction\<close>, \<open>persist\<close>),
  the file helpers (\<open>readData\<close>, \<open>writeData\<close>, \<open>cloneMap\<close>) and the transaction
  (\<open>Tx\<close> with \<open>Get\<close>, \<open>Set\<close>, \<open>Delete\<close>).

  Every method of \<open>DB\<close> runs under the store's read-write lock for its whole body, so one
  call is one atomic step here: it takes the store and the file system and returns the
  result with the store and the file system it leaves. Interleavings of calls are not
  modelled.
\<close>

subsection \<open>Go values: errors, panics, maps\<close>

type_synonym bytes = string

datatype error =
    ErrNotExist
  | ErrOS string
  | ErrJSON string
  | ErrBatch string

text \<open>
  \<open>ErrNotExist\<close> is an error of an \<open>os\<close> call for which \<open>os.IsNotExist\<close> holds,
  \<open>ErrOS\<close> any other error of an \<open>os\<close> call, \<open>ErrJSON\<close> an error of
  \<open>encoding/json\<close>, \<open>ErrBatch\<close> an error made by the caller's batch function.
  A Go result of type \<open>error\<close> is an \<open>error option\<close>, \<open>None\<close> for \<open>nil\<close>.
\<close>

fun IsNotExist :: "error \<Rightarrow> bool" where
  "IsNotExist ErrNotExist = True"
| "IsNotExist _ = False"

text \<open>A call either returns or panics; a panic unwinds through the deferred unlock.\<close>

datatype 'a outcome = Panicked string | Returned 'a

text \<open>
  A value of type \<open>map[string]T\<close> is \<open>nil\<close> or a map. Reading, deleting from and
  ranging over a nil map behave as on an empty map; assigning to an entry of a nil map
  panics.
\<close>

datatype 'v gomap = NilMap | GoMap "string \<rightharpoonup> 'v"

fun entries :: "'v gomap \<Rightarrow> (string \<rightharpoonup> 'v)" where
  "entries NilMap = Map.empty"
| "entries (GoMap m) = m"

text \<open>\<open>v, ok := m[k]\<close>: \<open>Some v\<close> stands for \<open>(v, true)\<close>, \<open>None\<close> for the zero value and \<open>false\<close>.\<close>

definition map_index :: "'v gomap \<Rightarrow> string \<Rightarrow> 'v option" where
  "map_index m k = entries m k"

text \<open>\<open>m[k] = v\<close>\<close>

fun map_assign :: "'v gomap \<Rightarrow> string \<Rightarrow> 'v \<Rightarrow> 'v gomap outcome" where
  "map_assign NilMap k v = Panicked ''assignment to entry in nil map''"
| "map_assign (GoMap m) k v = Returned (GoMap (m(k \<mapsto> v)))"

text \<open>\<open>delete(m, k)\<close>\<close>

fun map_delete :: "'v gomap \<Rightarrow> string \<Rightarrow> 'v gomap" where
  "map_delete NilMap k = NilMap"
| "map_delete (GoMap m) k = GoMap (m(k := None))"

subsection \<open>The environment: files, directories and the calls of package os\<close>

text \<open>
  The program reaches the disk through \<open>os.MkdirAll\<close>, \<open>ioutil.ReadFile\<close>,
  \<open>os.OpenFile\<close> and the writes of a \<open>json.Encoder\<close>. The file system is the regular
  files with their content and the set of directories. A system call can fail for reasons
  that are not part of this state (permissions, a full or broken disk): the caller of an
  operation passes, for each system call the operation makes, the fault the environment
  injects into it, \<open>None\<close> when the call is left to run.
\<close>

record filesys =
  files :: "string \<rightharpoonup> bytes"
  dirs :: "string set"

text \<open>The proper prefixes of a path that end before a separator: the directories above it.\<close>

definition ancestors :: "string \<Rightarrow> string list" where
  "ancestors p = map (\<lambda>n. take n p) (filter (\<lambda>n. p ! n = CHR ''/'') [1..<length p])"

text \<open>
  \<open>os.MkdirAll(p, 0755)\<close> creates \<open>p\<close> and the missing directories above it, and fails
  when one of them is a regular file.
\<close>

definition MkdirAll :: "string \<Rightarrow> string option \<Rightarrow> filesys \<Rightarrow> error + filesys" where
  "MkdirAll p fault fs =
     (case fault of
        Some msg \<Rightarrow> Inl (ErrOS msg)
      | None \<Rightarrow>
          if \<exists>q \<in> set (p # ancestors p). files fs q \<noteq> None
          then Inl (ErrOS ''not a directory'')
          else Inr (fs\<lparr>dirs := dirs fs \<union> set (p # ancestors p)\<rparr>))"

text \<open>\<open>ioutil.ReadFile(p)\<close> leaves the file system as it is.\<close>

definition ReadFile :: "string \<Rightarrow> string option \<Rightarrow> filesys \<Rightarrow> error + bytes" where
  "ReadFile p fault fs =
     (case fault of
        Some msg \<Rightarrow> Inl (ErrOS msg)
      | None \<Rightarrow>
          if p \<in> dirs fs then Inl (ErrOS ''is a directory'')
          else (case files fs p of
                  None \<Rightarrow> Inl ErrNotExist
                | Some b \<Rightarrow> Inr b))"

text \<open>
  \<open>os.OpenFile(p, os.O_WRONLY|os.O_CREATE|os.O_TRUNC, 0644)\<close> creates the file when it
  is missing and empties it when it exists; a failed call changes nothing.
\<close>

definition OpenFile :: "string \<Rightarrow> string option \<Rightarrow> filesys \<Rightarrow> error + filesys" where
  "OpenFile p fault fs =
     (case fault of
        Some msg \<Rightarrow> Inl (ErrOS msg)
      | None \<Rightarrow>
          if p \<in> dirs fs then Inl (ErrOS ''is a directory'')
          else Inr (fs\<lparr>files := (files fs)(p \<mapsto> [])\<rparr>))"

text \<open>
  \<open>encoder.Encode(v)\<close> on an encoder over the file just opened: the value is marshalled
  in memory first (\<open>marshal\<close>, a parameter: the indented JSON text and its final
  newline, or the error of an unsupported value), then written with one \<open>Write\<close>. A
  write fault \<open>(msg, n)\<close> stops the write after \<open>n\<close> bytes.
\<close>

definition Encode ::
  "('v gomap \<Rightarrow> error + bytes) \<Rightarrow> string \<Rightarrow> 'v gomap \<Rightarrow> (string \<times> nat) option \<Rightarrow> filesys
     \<Rightarrow> error option \<times> filesys" where
  "Encode marshal file v fault fs =
     (case marshal v of
        Inl err \<Rightarrow> (Some err, fs)
      | Inr b \<Rightarrow>
          (case fault of
             Some (msg, n) \<Rightarrow> (Some (ErrOS msg), fs\<lparr>files := (files fs)(file \<mapsto> take n b)\<rparr>)
           | None \<Rightarrow> (None, fs\<lparr>files := (files fs)(file \<mapsto> b)\<rparr>)))"

text \<open>The faults injected into the two system calls of \<open>Open\<close> and of \<open>writeData\<close>.\<close>

record open_env =
  mkdir_fault :: "string option"
  read_fault :: "string option"

record write_env =
  open_fault :: "string option"
  write_fault :: "(string \<times> nat) option"

definition no_open_faults :: open_env where
  "no_open_faults = \<lparr>mkdir_fault = None, read_fault = None\<rparr>"

definition no_write_faults :: write_env where
  "no_write_faults = \<lparr>open_fault = None, write_fault = None\<rparr>"

subsection \<open>The file helpers\<close>

text \<open>
  \<open>readData\<close>. \<open>unmarshal b d\<close> stands for \<open>json.Unmarshal(b, &d)\<close>: the error, or the
  value \<open>d\<close> holds afterwards (\<open>nil\<close> after the document \<open>null\<close>).
\<close>

definition readData ::
  "(bytes \<Rightarrow> 'v gomap \<Rightarrow> error + 'v gomap) \<Rightarrow> string \<Rightarrow> string option \<Rightarrow> filesys
     \<Rightarrow> error + 'v gomap" where
  "readData unmarshal fp fault fs =
     (let data = GoMap Map.empty in
      case ReadFile fp fault fs of
        Inl err \<Rightarrow> if IsNotExist err then Inr data else Inl err
      | Inr fileData \<Rightarrow>
          if length fileData = 0 then Inr data
          else (case unmarshal fileData data of
                  Inl err \<Rightarrow> Inl err
                | Inr data' \<Rightarrow> Inr data'))"

text \<open>\<open>writeData\<close>. The deferred \<open>file.Close()\<close> drops its error and is left out.\<close>

definition writeData ::
  "('v gomap \<Rightarrow> error + bytes) \<Rightarrow> string \<Rightarrow> 'v gomap \<Rightarrow> write_env \<Rightarrow> filesys
     \<Rightarrow> error option \<times> filesys" where
  "writeData marshal fp data env fs =
     (case OpenFile fp (open_fault env) fs of
        Inl err \<Rightarrow> (Some err, fs)
      | Inr fs1 \<Rightarrow>
          (case Encode marshal fp data (write_fault env) fs1 of
             (Some err, fs2) \<Rightarrow> (Some err, fs2)
           | (None, fs2) \<Rightarrow> (None, fs2)))"

text \<open>
  \<open>cloneMap\<close>: a new map made by \<open>make\<close>, to which the loop assigns every entry of the
  original. The values are copied by assignment, not cloned.
\<close>

definition cloneMap :: "'v gomap \<Rightarrow> 'v gomap" where
  "cloneMap original = GoMap (Map.empty ++ entries original)"

subsection \<open>The transaction\<close>

text \<open>
  \<open>Tx\<close> holds its working copy. Its pointer back to the store is read by none of its
  methods and is left out.
\<close>

record 'v Tx =
  data :: "'v gomap"


definition Tx_Set :: "'v Tx \<Rightarrow> string \<Rightarrow> 'v \<Rightarrow> 'v Tx outcome" where
  "Tx_Set tx key value =
     (case map_assign (Tx.data tx) key value of
        Panicked p \<Rightarrow> Panicked p
      | Returned m \<Rightarrow> Returned (tx\<lparr>Tx.data := m\<rparr>))"

definition Tx_Delete :: "'v Tx \<Rightarrow> string \<Rightarrow> 'v Tx" where
  "Tx_Delete tx key = tx\<lparr>Tx.data := map_delete (Tx.data tx) key\<rparr>"

subsection \<open>The store\<close>

record 'v DB =
  filepath :: string
  data :: "'v gomap"

text \<open>\<open>Open\<close>. \<open>Dir\<close> stands for \<open>filepath.Dir\<close>. An error comes with no store.\<close>

definition Open ::
  "(string \<Rightarrow> string) \<Rightarrow> (bytes \<Rightarrow> 'v gomap \<Rightarrow> error + 'v gomap) \<Rightarrow> string \<Rightarrow> open_env
     \<Rightarrow> filesys \<Rightarrow> (error + 'v DB) \<times> filesys" where
  "Open Dir unmarshal fp env fs =
     (case MkdirAll (Dir fp) (mkdir_fault env) fs of
        Inl err \<Rightarrow> (Inl err, fs)
      | Inr fs1 \<Rightarrow>
          (case readData unmarshal fp (read_fault env) fs1 of
             Inl err \<Rightarrow> (Inl err, fs1)
           | Inr loaded \<Rightarrow> (Inr \<lparr>filepath = fp, DB.data = loaded\<rparr>, fs1)))"

definition persist ::
  "('v gomap \<Rightarrow> error + bytes) \<Rightarrow> 'v DB \<Rightarrow> write_env \<Rightarrow> filesys \<Rightarrow> error option \<times> filesys" where
  "persist marshal db env fs = writeData marshal (filepath db) (DB.data db) env fs"

definition Get :: "'v DB \<Rightarrow> string \<Rightarrow> 'v option" where
  "Get db key = map_index (DB.data db) key"

definition Set ::
  "('v gomap \<Rightarrow> error + bytes) \<Rightarrow> 'v DB \<Rightarrow> string \<Rightarrow> 'v \<Rightarrow> write_env \<Rightarrow> filesys
     \<Rightarrow> (error option \<times> 'v DB \<times> filesys) outcome" where
  "Set marshal db key value env fs =
     (case map_assign (DB.data db) key value of
        Panicked p \<Rightarrow> Panicked p
      | Returned m \<Rightarrow>
          (let db1 = db\<lparr>DB.data := m\<rparr>;
               (err, fs1) = persist marshal db1 env fs
           in Returned (err, db1, fs1)))"

definition Delete ::
  "('v gomap \<Rightarrow> error + bytes) \<Rightarrow> 'v DB \<Rightarrow> string \<Rightarrow> write_env \<Rightarrow> filesys
     \<Rightarrow> error option \<times> 'v DB \<times> filesys" where
  "Delete marshal db key env fs =
     (let db1 = db\<lparr>DB.data := map_delete (DB.data db) key\<rparr>;
          (err, fs1) = persist marshal db1 env fs
      in (err, db1, fs1))"

text \<open>\<open>GetAll\<close>: a new map that receives every entry of the store's map.\<close>

definition GetAll :: "'v DB \<Rightarrow> 'v gomap" where
  "GetAll db = GoMap (Map.empty ++ entries (DB.data db))"

text \<open>
  \<open>Transaction\<close>. The batch function \<open>fn\<close> receives the transaction and returns its
  error with the transaction as it left it, or panics. It has no access to the store's
  own map: the fields are unexported, and a call of a store method from inside \<open>fn\<close>
  blocks on the lock the transaction holds.
\<close>

definition Transaction ::
  "('v gomap \<Rightarrow> error + bytes) \<Rightarrow> 'v DB \<Rightarrow> ('v Tx \<Rightarrow> (error option \<times> 'v Tx) outcome)
     \<Rightarrow> write_env \<Rightarrow> filesys \<Rightarrow> (error option \<times> 'v DB \<times> filesys) outcome" where
  "Transaction marshal db fn env fs =
     (let tx = \<lparr>Tx.data = cloneMap (DB.data db)\<rparr> in
      case fn tx of
        Panicked p \<Rightarrow> Panicked p
      | Returned (Some err, tx1) \<Rightarrow> Returned (Some err, db, fs)
      | Returned (None, tx1) \<Rightarrow>
          (let db1 = db\<lparr>DB.data := Tx.data tx1\<rparr>;
               (err, fs1) = persist marshal db1 env fs
           in Returned (err, db1, fs1)))"

subsection \<open>Map objects and shared values\<close>

text \<open>
  Where a claim is about copies and sharing, a map is an object in a heap, named by its
  address, and a value of the element type is either data held inline, which an
  assignment copies whole, or a reference (a pointer, a slice, a map) to a cell that
  every copy of the reference shares.
\<close>

type_synonym addr = nat

datatype 'a elem = Inline 'a | Ref addr

record 'a heap =
  maps :: "addr \<rightharpoonup> (string \<rightharpoonup> 'a elem)"
  cells :: "addr \<rightharpoonup> 'a"
  fresh :: addr

text \<open>The entries of the map at an address; an address with no map reads as empty.\<close>

definition map_at :: "'a heap \<Rightarrow> addr \<Rightarrow> (string \<rightharpoonup> 'a elem)" where
  "map_at h a = (case maps h a of None \<Rightarrow> Map.empty | Some m \<Rightarrow> m)"

text \<open>\<open>make(map[string]T, n)\<close> allocates an empty map at the next unused address.\<close>

definition make_map :: "'a heap \<Rightarrow> addr \<times> 'a heap" where
  "make_map h = (fresh h, h\<lparr>maps := (maps h)(fresh h \<mapsto> Map.empty), fresh := Suc (fresh h)\<rparr>)"

text \<open>
  \<open>GetAll\<close> and \<open>Get\<close> on the heap; \<open>d\<close> is the address in the store's field
  \<open>data\<close>. The loop of \<open>GetAll\<close> assigns every value of the store's map to the new map.
\<close>

definition GetAll_heap :: "addr \<Rightarrow> 'a heap \<Rightarrow> addr \<times> 'a heap" where
  "GetAll_heap d h =
     (let (dataCopy, h1) = make_map h
      in (dataCopy, h1\<lparr>maps := (maps h1)(dataCopy \<mapsto> map_at h1 dataCopy ++ map_at h1 d)\<rparr>))"

definition Get_heap :: "addr \<Rightarrow> string \<Rightarrow> 'a heap \<Rightarrow> 'a elem option" where
  "Get_heap d key h = map_at h d key"

text \<open>
  What a caller can do with a result: replace the content of a map it holds, and write
  through a value it holds. Writing through inline data changes the caller's own copy
  only, which is no part of the heap.
\<close>

definition caller_writes_map :: "addr \<Rightarrow> (string \<rightharpoonup> 'a elem) \<Rightarrow> 'a heap \<Rightarrow> 'a heap" where
  "caller_writes_map c m h = h\<lparr>maps := (maps h)(c \<mapsto> m)\<rparr>"

fun caller_writes_through :: "'a elem \<Rightarrow> 'a \<Rightarrow> 'a heap \<Rightarrow> 'a heap" where
  "caller_writes_through (Inline y) x h = h"
| "caller_writes_through (Ref p) x h = h\<lparr>cells := (cells h)(p \<mapsto> x)\<rparr>"

text \<open>What the store holds under a key, with a reference followed to its cell.\<close>

fun deref :: "'a heap \<Rightarrow> 'a elem \<Rightarrow> 'a option" where
  "deref h (Inline x) = Some x"
| "deref h (Ref p) = cells h p"

definition store_holds :: "'a heap \<Rightarrow> addr \<Rightarrow> string \<Rightarrow> 'a option" where
  "store_holds h d key = (case map_at h d key of None \<Rightarrow> None | Some e \<Rightarrow> deref h e)"

subsection \<open>Concrete inputs\<close>

text \<open>
  A codec of three documents, enough to run the operations on concrete inputs: it
  marshals the empty map, the map that holds \<open>1\<close> under \<open>a\<close> and the map that holds
  \<open>2\<close> under \<open>b\<close>, and refuses every other value.
\<close>

definition demo_marshal :: "int gomap \<Rightarrow> error + bytes" where
  "demo_marshal m =
     (if m = GoMap Map.empty then Inr ''{}''
      else if m = GoMap [''a'' \<mapsto> 1] then Inr ''{a:1}''
      else if m = GoMap [''b'' \<mapsto> 2] then Inr ''{b:2}''
      else Inl (ErrJSON ''unsupported value''))"

definition demo_unmarshal :: "bytes \<Rightarrow> int gomap \<Rightarrow> error + int gomap" where
  "demo_unmarshal b d =
     (if b = ''{}'' then Inr d
      else if b = ''{a:1}'' then Inr (GoMap ((entries d)(''a'' \<mapsto> 1)))
      else if b = ''{b:2}'' then Inr (GoMap ((entries d)(''b'' \<mapsto> 2)))
      else Inl (ErrJSON ''invalid character''))"

text \<open>\<open>filepath.Dir\<close> on a path with no separator: the current directory.\<close>

definition bare_Dir :: "string \<Rightarrow> string" where
  "bare_Dir p = ''.''"

text \<open>
  Stores at \<open>db.json\<close>: empty, after \<open>Set("a", 1)\<close>, and after the scenario of the
  transaction.
\<close>

definition demo_db :: "int DB" where
  "demo_db = \<lparr>filepath = ''db.json'', DB.data = GoMap Map.empty\<rparr>"

definition demo_db_a :: "int DB" where
  "demo_db_a = \<lparr>filepath = ''db.json'', DB.data = GoMap [''a'' \<mapsto> 1]\<rparr>"


text \<open>
  Disks whose only directory is the current one: with no file, with an empty file, with
  the empty document, with the two other documents, and with a file that does not parse.
\<close>

definition demo_fs :: filesys where
  "demo_fs = \<lparr>files = Map.empty, dirs = {''.''}\<rparr>"

definition demo_fs_zero :: filesys where
  "demo_fs_zero = \<lparr>files = [''db.json'' \<mapsto> []], dirs = {''.''}\<rparr>"

definition demo_fs_empty_doc :: filesys where
  "demo_fs_empty_doc = \<lparr>files = [''db.json'' \<mapsto> ''{}''], dirs = {''.''}\<rparr>"

definition demo_fs_a :: filesys where
  "demo_fs_a = \<lparr>files = [''db.json'' \<mapsto> ''{a:1}''], dirs = {''.''}\<rparr>"


definition demo_fs_garbage :: filesys where
  "demo_fs_garbage = \<lparr>files = [''db.json'' \<mapsto> ''{oops''], dirs = {''.''}\<rparr>"


definition disk_full :: write_env where
  "disk_full = \<lparr>open_fault = None, write_fault = Some (''no space left on device'', 0)\<rparr>"

text \<open>A batch that sets a key, deletes another and then fails.\<close>

definition failing_batch :: "int Tx \<Rightarrow> (error option \<times> int Tx) outcome" where
  "failing_batch tx =
     (case Tx_Set tx ''a'' 1 of
        Panicked p \<Rightarrow> Panicked p
      | Returned tx1 \<Rightarrow> Returned (Some (ErrBatch ''abort''), Tx_Delete tx1 ''b''))"


text \<open>
  A store of pointers: the map at address 0 holds, under \<open>k\<close>, a pointer to a cell that
  holds 1; and the heap after \<open>GetAll\<close>, where the new map, at address 1, holds the same
  pointer. The same with the value 1 held inline.
\<close>

definition pointer_heap :: "int heap" where
  "pointer_heap = \<lparr>maps = [0 \<mapsto> [''k'' \<mapsto> Ref 0]], cells = [0 \<mapsto> 1], fresh = 1\<rparr>"

definition pointer_heap_copied :: "int heap" where
  "pointer_heap_copied =
     \<lparr>maps = [0 \<mapsto> [''k'' \<mapsto> Ref 0], 1 \<mapsto> [''k'' \<mapsto> Ref 0]], cells = [0 \<mapsto> 1], fresh = 2\<rparr>"

definition inline_heap :: "int heap" where
  "inline_heap = \<lparr>maps = [0 \<mapsto> [''k'' \<mapsto> Inline 1]], cells = Map.empty, fresh = 1\<rparr>"

definition inline_heap_copied :: "int heap" where
  "inline_heap_copied =
     \<lparr>maps = [0 \<mapsto> [''k'' \<mapsto> Inline 1], 1 \<mapsto> [''k'' \<mapsto> Inline 1]], cells = Map.empty, fresh = 2\<rparr>"

section \<open>Properties\<close>

subsection \<open>Facts about the maps and the file helpers\<close>

lemma map_delete_twice: "map_delete (map_delete m k) k = map_delete m k"
  by (cases m) simp_all

lemma writeData_ok_iff:
  "writeData marshal fp d env fs = (None, fs') \<longleftrightarrow>
     open_fault env = None \<and> fp \<notin> dirs fs \<and> write_fault env = None \<and>
     (\<exists>b. marshal d = Inr b \<and> fs' = fs\<lparr>files := (files fs)(fp \<mapsto> b)\<rparr>)"
  by (auto simp: writeData_def OpenFile_def Encode_def
      split: option.splits sum.splits prod.splits if_splits)


lemma writeData_failed_after_open:
  "open_fault env = None \<Longrightarrow> fp \<notin> dirs fs \<Longrightarrow> writeData marshal fp d env fs = (Some err, fs')
     \<Longrightarrow> \<exists>c. files fs' fp = Some c"
  by (auto simp: writeData_def OpenFile_def Encode_def
      split: option.splits sum.splits prod.splits if_splits)

lemma MkdirAll_files:
  "MkdirAll p fault fs = Inr fs1 \<Longrightarrow> files fs1 = files fs"
  by (auto simp: MkdirAll_def split: option.splits if_splits)



lemma readData_of_file:
  "files fs fp = Some b \<Longrightarrow> fp \<notin> dirs fs \<Longrightarrow> b \<noteq> [] \<Longrightarrow>
   readData unmarshal fp None fs = unmarshal b (GoMap Map.empty)"
  by (auto simp: readData_def ReadFile_def Let_def split: sum.splits)

lemma Open_fs:
  "Open Dir unmarshal fp oenv fs = (r, fs1) \<Longrightarrow>
     files fs1 = files fs \<and> dirs fs \<subseteq> dirs fs1 \<and>
     dirs fs1 \<subseteq> dirs fs \<union> set (Dir fp # ancestors (Dir fp))"
  by (auto simp: Open_def MkdirAll_def split: sum.splits option.splits if_splits)

lemma mutation_ok_file:
  assumes "Set marshal db k v env fs = Returned (None, db', fs')
         \<or> Delete marshal db k env fs = (None, db', fs')
         \<or> Transaction marshal db fn env fs = Returned (None, db', fs')"
  shows "filepath db' = filepath db \<and> filepath db \<notin> dirs fs \<and> dirs fs' = dirs fs \<and>
         (\<exists>b. marshal (DB.data db') = Inr b \<and> fs' = fs\<lparr>files := (files fs)(filepath db \<mapsto> b)\<rparr>)"
  using assms
  by (cases "DB.data db")
     (auto simp: Set_def Delete_def Transaction_def persist_def Let_def writeData_ok_iff
       split: prod.splits outcome.splits option.splits)

lemma GetAll_heap_eq:
  "GetAll_heap d h =
     (fresh h, h\<lparr>maps := (maps h)(fresh h \<mapsto> (if d = fresh h then Map.empty else map_at h d)),
                  fresh := Suc (fresh h)\<rparr>)"
  by (simp add: GetAll_heap_def make_map_def map_at_def)

subsection \<open>Runs on the concrete inputs\<close>


lemma demo_maps_differ: "[''b'' \<mapsto> 2::int] \<noteq> [''a'' \<mapsto> 1]"
proof
  assume "[''b'' \<mapsto> 2::int] = [''a'' \<mapsto> 1]"
  then have "[''b'' \<mapsto> 2::int] ''a'' = [''a'' \<mapsto> 1] ''a''" by simp
  then show False by simp
qed

lemma demo_MkdirAll:
  "files fs ''.'' = None \<Longrightarrow> ''.'' \<in> dirs fs \<Longrightarrow> MkdirAll ''.'' None fs = Inr fs"
  by (simp add: MkdirAll_def ancestors_def insert_absorb)

lemma demo_Open_fresh:
  "Open bare_Dir demo_unmarshal ''db.json'' no_open_faults demo_fs = (Inr demo_db, demo_fs)"
  by (simp add: Open_def bare_Dir_def demo_MkdirAll no_open_faults_def demo_fs_def readData_def
      ReadFile_def demo_db_def Let_def)


lemma demo_Set_a:
  "Set demo_marshal demo_db ''a'' 1 no_write_faults demo_fs = Returned (None, demo_db_a, demo_fs_a)"
  by (simp add: Set_def demo_db_def demo_fs_def demo_db_a_def demo_fs_a_def no_write_faults_def
      persist_def writeData_def OpenFile_def Encode_def demo_marshal_def Let_def)


lemma demo_Set_disk_full:
  "Set demo_marshal demo_db ''a'' 1 disk_full demo_fs
     = Returned (Some (ErrOS ''no space left on device''), demo_db_a, demo_fs_zero)"
  by (simp add: Set_def demo_db_def demo_fs_def demo_db_a_def demo_fs_zero_def disk_full_def
      persist_def writeData_def OpenFile_def Encode_def demo_marshal_def demo_maps_differ Let_def)

lemma demo_Delete_a:
  "Delete demo_marshal demo_db_a ''a'' no_write_faults demo_fs_a = (None, demo_db, demo_fs_empty_doc)"
  by (simp add: Delete_def demo_db_def demo_fs_a_def demo_db_a_def demo_fs_empty_doc_def
      no_write_faults_def persist_def writeData_def OpenFile_def Encode_def demo_marshal_def Let_def)



lemma demo_GetAll_heap: "GetAll_heap 0 pointer_heap = (1, pointer_heap_copied)"
  by (simp add: GetAll_heap_eq pointer_heap_def pointer_heap_copied_def map_at_def)

lemma demo_GetAll_inline: "GetAll_heap 0 inline_heap = (1, inline_heap_copied)"
  by (simp add: GetAll_heap_eq inline_heap_def inline_heap_copied_def map_at_def)

subsection \<open>Transactions that fail\<close>

text \<open>
  Claim C1. When the batch function, run on the transaction that \<open>Transaction\<close> hands
  it, returns an error, \<open>Transaction\<close> returns that same error, and the store and the
  file system are exactly what they were before the call: nothing the batch did to the
  working copy reaches the store's map, so \<open>Get\<close> and \<open>GetAll\<close> answer as before, and
  nothing is written.
\<close>

theorem Transaction_failure_leaves_store:
  "fn \<lparr>Tx.data = cloneMap (DB.data db)\<rparr> = Returned (Some err, tx1) \<Longrightarrow>
   Transaction marshal db fn env fs = Returned (Some err, db, fs)"
  by (simp add: Transaction_def)

theorem Transaction_failure_leaves_store_witness:
  "failing_batch \<lparr>Tx.data = cloneMap (DB.data demo_db)\<rparr>
     = Returned (Some (ErrBatch ''abort''), \<lparr>Tx.data = GoMap [''a'' \<mapsto> 1]\<rparr>) \<and>
   Transaction demo_marshal demo_db failing_batch no_write_faults demo_fs
     = Returned (Some (ErrBatch ''abort''), demo_db, demo_fs)"
proof -
  have h: "failing_batch \<lparr>Tx.data = cloneMap (DB.data demo_db)\<rparr>
     = Returned (Some (ErrBatch ''abort''), \<lparr>Tx.data = GoMap [''a'' \<mapsto> 1]\<rparr>)"
    by (simp add: failing_batch_def cloneMap_def demo_db_def Tx_Set_def Tx_Delete_def)
  from Transaction_failure_leaves_store [where fn = failing_batch and db = demo_db, OF h] h
  show ?thesis by blast
qed

subsection \<open>Reading back what was set\<close>

text \<open>
  Claim C2. For every key \<open>k\<close> and value \<open>v\<close>: when \<open>Set(k, v)\<close> returns without an
  error, \<open>Get(k)\<close> on the store it leaves returns \<open>(v, true)\<close>.
\<close>

theorem Set_then_Get:
  "Set marshal db k v env fs = Returned (None, db', fs') \<Longrightarrow> Get db' k = Some v"
  by (cases "DB.data db") (auto simp: Set_def Get_def map_index_def Let_def split: prod.splits)

theorem Set_then_Get_witness:
  "Set demo_marshal demo_db ''a'' 1 no_write_faults demo_fs
     = Returned (None, \<lparr>filepath = ''db.json'', DB.data = GoMap [''a'' \<mapsto> 1]\<rparr>,
         \<lparr>files = [''db.json'' \<mapsto> ''{a:1}''], dirs = {''.''}\<rparr>) \<and>
   Get \<lparr>filepath = ''db.json'', DB.data = GoMap [''a'' \<mapsto> 1]\<rparr> ''a'' = Some (1::int)"
proof -
  have h: "Set demo_marshal demo_db ''a'' 1 no_write_faults demo_fs
     = Returned (None, \<lparr>filepath = ''db.json'', DB.data = GoMap [''a'' \<mapsto> 1]\<rparr>,
         \<lparr>files = [''db.json'' \<mapsto> ''{a:1}''], dirs = {''.''}\<rparr>)"
    by (simp add: Set_def demo_db_def demo_fs_def no_write_faults_def persist_def writeData_def
        OpenFile_def Encode_def demo_marshal_def Let_def)
  from Set_then_Get [OF h] h show ?thesis by blast
qed

subsection \<open>Reopening after a mutation\<close>



text \<open>
  The assumption on the codec cannot be dropped: if every committing transaction can be
  read back, then \<open>unmarshal\<close> reads back whatever non-empty text \<open>marshal\<close> produces.
\<close>

lemma durability_needs_codec:
  assumes durable: "\<And>db fn env fs db' fs'.
      Transaction marshal db fn env fs = Returned (None, db', fs') \<Longrightarrow>
      readData unmarshal (filepath db') None fs' = Inr (DB.data db')"
    and enc: "marshal m = Inr b" and ne: "b \<noteq> []"
  shows "unmarshal b (GoMap Map.empty) = Inr m"
proof -
  let ?db = "\<lparr>filepath = ''db.json'', DB.data = GoMap Map.empty\<rparr>"
  let ?fs = "\<lparr>files = Map.empty, dirs = {}\<rparr>"
  let ?fs' = "\<lparr>files = [''db.json'' \<mapsto> b], dirs = {}\<rparr>"
  have "Transaction marshal ?db (\<lambda>tx. Returned (None, \<lparr>Tx.data = m\<rparr>)) no_write_faults ?fs
      = Returned (None, ?db\<lparr>DB.data := m\<rparr>, ?fs')"
    using enc
    by (simp add: Transaction_def persist_def writeData_def OpenFile_def Encode_def
        no_write_faults_def Let_def)
  from durable [OF this] have "readData unmarshal ''db.json'' None ?fs' = Inr m" by simp
  moreover have "readData unmarshal ''db.json'' None ?fs' = unmarshal b (GoMap Map.empty)"
    using ne by (intro readData_of_file) simp_all
  ultimately show ?thesis by simp
qed

subsection \<open>Failed writes\<close>



subsection \<open>What Open loads\<close>

text \<open>
  Claim C5. Let the directory step of \<open>Open\<close> succeed, no read fault occur and the
  location not be a directory. When no file is at the location, and when the file there
  is empty, \<open>Open\<close> returns a store with an empty map. When the file is not empty and
  \<open>unmarshal\<close> fails on it, \<open>Open\<close> returns that decode error and no store.
\<close>

theorem Open_empty_or_undecodable:
  assumes dir: "MkdirAll (Dir fp) (mkdir_fault env) fs = Inr fs1"
    and rd: "read_fault env = None"
    and nodir: "fp \<notin> dirs fs1"
  shows "(files fs fp = None \<or> files fs fp = Some [] \<longrightarrow>
            Open Dir unmarshal fp env fs = (Inr \<lparr>filepath = fp, DB.data = GoMap Map.empty\<rparr>, fs1)) \<and>
         (\<forall>b err. files fs fp = Some b \<and> b \<noteq> [] \<and> unmarshal b (GoMap Map.empty) = Inl err \<longrightarrow>
            Open Dir unmarshal fp env fs = (Inl err, fs1))"
  using dir rd nodir MkdirAll_files [OF dir]
  by (auto simp: Open_def readData_def ReadFile_def Let_def split: sum.splits option.splits)

theorem Open_empty_or_undecodable_witness:
  "Open bare_Dir demo_unmarshal ''db.json'' no_open_faults demo_fs = (Inr demo_db, demo_fs) \<and>
   Open bare_Dir demo_unmarshal ''db.json'' no_open_faults demo_fs_zero = (Inr demo_db, demo_fs_zero) \<and>
   Open bare_Dir demo_unmarshal ''db.json'' no_open_faults demo_fs_garbage
     = (Inl (ErrJSON ''invalid character''), demo_fs_garbage)"
proof -
  have rd: "read_fault no_open_faults = None" by (simp add: no_open_faults_def)
  have mk: "MkdirAll (bare_Dir ''db.json'') (mkdir_fault no_open_faults) fs = Inr fs"
    if "files fs ''.'' = None" "''.'' \<in> dirs fs" for fs
    using that by (simp add: bare_Dir_def demo_MkdirAll no_open_faults_def)
  have a: "Open bare_Dir demo_unmarshal ''db.json'' no_open_faults demo_fs = (Inr demo_db, demo_fs)"
    using Open_empty_or_undecodable [where Dir = bare_Dir and fp = "''db.json''"
        and env = no_open_faults and fs = demo_fs and ?fs1.0 = demo_fs and unmarshal = demo_unmarshal,
        OF mk rd]
    by (simp add: demo_fs_def demo_db_def)
  have b: "Open bare_Dir demo_unmarshal ''db.json'' no_open_faults demo_fs_zero
      = (Inr demo_db, demo_fs_zero)"
    using Open_empty_or_undecodable [where Dir = bare_Dir and fp = "''db.json''"
        and env = no_open_faults and fs = demo_fs_zero and ?fs1.0 = demo_fs_zero
        and unmarshal = demo_unmarshal, OF mk rd]
    by (simp add: demo_fs_zero_def demo_db_def)
  have c: "Open bare_Dir demo_unmarshal ''db.json'' no_open_faults demo_fs_garbage
      = (Inl (ErrJSON ''invalid character''), demo_fs_garbage)"
    using Open_empty_or_undecodable [where Dir = bare_Dir and fp = "''db.json''"
        and env = no_open_faults and fs = demo_fs_garbage and ?fs1.0 = demo_fs_garbage
        and unmarshal = demo_unmarshal, OF mk rd]
    by (simp add: demo_fs_garbage_def demo_unmarshal_def)
  from a b c show ?thesis by blast
qed

subsection \<open>Copies and sharing\<close>

text \<open>
  Claim C6, amended. When the store's map is an allocated object, \<open>GetAll\<close> returns a
  new map object, distinct from the store's, with the same entries, and leaves the store's
  map and every cell as they were; whatever the caller then writes into the returned map,
  the store's map and what the store holds stay the same. The values are copied by
  assignment: a value held inline stays what it was in the store whatever the caller does
  to its copy, but a reference found in the returned map is the store's own reference
  (\<open>Get\<close> returns the same one), and a write through it changes what the store holds.
\<close>

theorem GetAll_copy_is_shallow:
  assumes alloc: "d < fresh h"
  shows "\<exists>c h'. GetAll_heap d h = (c, h') \<and> c = fresh h \<and> c \<noteq> d \<and>
           map_at h' c = map_at h d \<and>
           GoMap (map_at h' c) = GetAll \<lparr>filepath = fp, DB.data = GoMap (map_at h d)\<rparr> \<and>
           map_at h' d = map_at h d \<and> cells h' = cells h \<and>
           (\<forall>m key. map_at (caller_writes_map c m h') d = map_at h d \<and>
                     store_holds (caller_writes_map c m h') d key = store_holds h d key) \<and>
           (\<forall>key y x. Get_heap d key h' = Some (Inline y) \<longrightarrow>
                     store_holds (caller_writes_through (Inline y) x h') d key = Some y) \<and>
           (\<forall>key p x. map_at h' c key = Some (Ref p) \<longrightarrow>
                     Get_heap d key h' = Some (Ref p) \<and>
                     store_holds (caller_writes_through (Ref p) x h') d key = Some x)"
proof -
  let ?c = "fresh h"
  let ?h' = "h\<lparr>maps := (maps h)(?c \<mapsto> map_at h d), fresh := Suc ?c\<rparr>"
  from alloc have ne: "?c \<noteq> d" by simp
  then have run: "GetAll_heap d h = (?c, ?h')" by (simp add: GetAll_heap_eq)
  have copy: "map_at ?h' ?c = map_at h d" by (simp add: map_at_def)
  have kept: "map_at ?h' d = map_at h d" using ne by (simp add: map_at_def)
  have val: "GoMap (map_at ?h' ?c) = GetAll \<lparr>filepath = fp, DB.data = GoMap (map_at h d)\<rparr>"
    by (simp add: GetAll_def copy)
  have wm: "map_at (caller_writes_map ?c m ?h') d = map_at h d \<and>
        store_holds (caller_writes_map ?c m ?h') d key = store_holds h d key" for m key
  proof -
    have m1: "map_at (caller_writes_map ?c m ?h') d = map_at h d"
      using ne by (simp add: caller_writes_map_def map_at_def)
    have "deref (caller_writes_map ?c m ?h') e = deref h e" for e
      by (cases e) (simp_all add: caller_writes_map_def)
    with m1 show ?thesis by (simp add: store_holds_def split: option.splits)
  qed
  have inl: "store_holds (caller_writes_through (Inline y) x ?h') d key = Some y"
    if "Get_heap d key ?h' = Some (Inline y)" for key y x
    using that by (simp add: Get_heap_def store_holds_def)
  have ref: "Get_heap d key ?h' = Some (Ref p) \<and>
        store_holds (caller_writes_through (Ref p) x ?h') d key = Some x"
    if "map_at ?h' ?c key = Some (Ref p)" for key p x
  proof -
    from that copy kept have g: "map_at ?h' d key = Some (Ref p)" by simp
    then have "map_at (caller_writes_through (Ref p) x ?h') d key = Some (Ref p)"
      by (simp add: map_at_def)
    then show ?thesis using g by (simp add: Get_heap_def store_holds_def)
  qed
  have part2: "\<forall>m key. map_at (caller_writes_map ?c m ?h') d = map_at h d \<and>
        store_holds (caller_writes_map ?c m ?h') d key = store_holds h d key"
    using wm by blast
  have part3: "\<forall>key y x. Get_heap d key ?h' = Some (Inline y) \<longrightarrow>
        store_holds (caller_writes_through (Inline y) x ?h') d key = Some y"
    using inl by blast
  have part4: "\<forall>key p x. map_at ?h' ?c key = Some (Ref p) \<longrightarrow>
        Get_heap d key ?h' = Some (Ref p) \<and>
        store_holds (caller_writes_through (Ref p) x ?h') d key = Some x"
    using ref by blast
  have cs: "cells ?h' = cells h" by simp
  show ?thesis
    apply (rule exI [of _ ?c], rule exI [of _ ?h'])
    apply (intro conjI)
             apply (rule run)
            apply (rule refl)
           apply (rule ne)
          apply (rule copy)
         apply (rule val)
        apply (rule kept)
       apply (rule cs)
      apply (rule part2)
     apply (rule part3)
    apply (rule part4)
    done
qed

theorem GetAll_copy_is_shallow_witness:
  "(0::nat) < fresh pointer_heap \<and>
   GetAll_heap 0 pointer_heap = (1, pointer_heap_copied) \<and>
   map_at pointer_heap_copied 1 = map_at pointer_heap 0 \<and>
   map_at (caller_writes_map 1 Map.empty pointer_heap_copied) 0 = map_at pointer_heap 0 \<and>
   map_at pointer_heap_copied 1 ''k'' = Some (Ref 0) \<and>
   store_holds (caller_writes_through (Ref 0) 5 pointer_heap_copied) 0 ''k'' = Some 5 \<and>
   (0::nat) < fresh inline_heap \<and>
   GetAll_heap 0 inline_heap = (1, inline_heap_copied) \<and>
   Get_heap 0 ''k'' inline_heap_copied = Some (Inline 1) \<and>
   store_holds (caller_writes_through (Inline 1) 5 inline_heap_copied) 0 ''k'' = Some 1"
proof -
  have al: "(0::nat) < fresh pointer_heap" by (simp add: pointer_heap_def)
  from GetAll_copy_is_shallow [OF al, of "''db.json''"] obtain c h' where
    run: "GetAll_heap 0 pointer_heap = (c, h')" and
    f1: "map_at h' c = map_at pointer_heap 0" and
    f2: "\<forall>m key. map_at (caller_writes_map c m h') 0 = map_at pointer_heap 0 \<and>
         store_holds (caller_writes_map c m h') 0 key = store_holds pointer_heap 0 key" and
    f3: "\<forall>key p x. map_at h' c key = Some (Ref p) \<longrightarrow>
         Get_heap 0 key h' = Some (Ref p) \<and>
         store_holds (caller_writes_through (Ref p) x h') 0 key = Some x"
    by blast
  from run demo_GetAll_heap have c: "c = 1" and h': "h' = pointer_heap_copied" by simp_all
  note facts = f1 [unfolded c h'] f2 [unfolded c h'] f3 [unfolded c h']
  have held: "map_at pointer_heap_copied 1 ''k'' = Some (Ref 0)"
    by (simp add: pointer_heap_copied_def map_at_def)
  with facts(3) have seen:
    "store_holds (caller_writes_through (Ref 0) 5 pointer_heap_copied) 0 ''k'' = Some 5"
    by blast
  have al2: "(0::nat) < fresh inline_heap" by (simp add: inline_heap_def)
  from GetAll_copy_is_shallow [OF al2, of "''db.json''"] obtain c2 h2 where
    run2: "GetAll_heap 0 inline_heap = (c2, h2)" and
    g3: "\<forall>key y x. Get_heap 0 key h2 = Some (Inline y) \<longrightarrow>
         store_holds (caller_writes_through (Inline y) x h2) 0 key = Some y"
    by blast
  from run2 demo_GetAll_inline have h2: "h2 = inline_heap_copied" by simp
  have got: "Get_heap 0 ''k'' inline_heap_copied = Some (Inline 1)"
    by (simp add: Get_heap_def inline_heap_copied_def map_at_def)
  with g3 [unfolded h2] have unseen:
    "store_holds (caller_writes_through (Inline 1) 5 inline_heap_copied) 0 ''k'' = Some 1"
    by blast
  from al demo_GetAll_heap facts(1) facts(2) held seen al2 demo_GetAll_inline got unseen
  show ?thesis by blast
qed

text \<open>
  Claim C6 as stated has \<open>Get\<close> and \<open>GetAll\<close> return independent copies of any
  composite value. In a store of pointers, both return the store's pointer, and a write
  through it changes what the store holds under the key from 1 to 5.
\<close>

theorem returned_pointer_counterexample:
  "Get_heap 0 ''k'' pointer_heap = Some (Ref 0) \<and>
   GetAll_heap 0 pointer_heap = (1, pointer_heap_copied) \<and>
   Get_heap 1 ''k'' pointer_heap_copied = Some (Ref 0) \<and>
   store_holds pointer_heap_copied 0 ''k'' = Some 1 \<and>
   store_holds (caller_writes_through (Ref 0) 5 pointer_heap_copied) 0 ''k'' = Some 5"
  using demo_GetAll_heap
  by (simp add: Get_heap_def store_holds_def map_at_def pointer_heap_def pointer_heap_copied_def)

subsection \<open>Deleting\<close>

text \<open>
  Claim C7. For every key \<open>k\<close>: after a \<open>Delete(k)\<close> that returned without an
  error, \<open>Get(k)\<close> returns not-found; a second \<open>Delete(k)\<close>, run with no fault
  injected, returns without an error and leaves the store and the disk as they are; and
  whatever the environment does, the second \<open>Delete(k)\<close> returns and leaves the store's
  map as it is, so the absence of the key is never what makes it fail.
\<close>

theorem Delete_then_absent:
  assumes "Delete marshal db k env fs = (None, db1, fs1)"
  shows "Get db1 k = None \<and>
         Delete marshal db1 k no_write_faults fs1 = (None, db1, fs1) \<and>
         (\<forall>env2. \<exists>r fs2. Delete marshal db1 k env2 fs1 = (r, db1, fs2))"
proof -
  from assms have db1: "db1 = db\<lparr>DB.data := map_delete (DB.data db) k\<rparr>"
    and w: "writeData marshal (filepath db) (map_delete (DB.data db) k) env fs = (None, fs1)"
    by (auto simp: Delete_def persist_def Let_def split: prod.splits)
  from w obtain b where nd: "filepath db \<notin> dirs fs"
    and enc: "marshal (map_delete (DB.data db) k) = Inr b"
    and after: "fs1 = fs\<lparr>files := (files fs)(filepath db \<mapsto> b)\<rparr>"
    unfolding writeData_ok_iff by blast
  have g: "Get db1 k = None"
    unfolding db1 Get_def map_index_def by (cases "DB.data db") simp_all
  have same: "db1\<lparr>DB.data := map_delete (DB.data db1) k\<rparr> = db1"
    unfolding db1 by (simp add: map_delete_twice)
  have "writeData marshal (filepath db1) (DB.data db1) no_write_faults fs1 = (None, fs1)"
    unfolding writeData_ok_iff using nd enc after db1 by (simp add: no_write_faults_def)
  then have again: "Delete marshal db1 k no_write_faults fs1 = (None, db1, fs1)"
    by (simp add: Delete_def persist_def Let_def same)
  have "\<exists>r fs2. Delete marshal db1 k env2 fs1 = (r, db1, fs2)" for env2
    by (simp add: Delete_def Let_def same split: prod.splits)
  with g again show ?thesis by blast
qed

theorem Delete_then_absent_witness:
  "Delete demo_marshal demo_db_a ''a'' no_write_faults demo_fs_a = (None, demo_db, demo_fs_empty_doc) \<and>
   Get demo_db ''a'' = None \<and>
   Delete demo_marshal demo_db ''a'' no_write_faults demo_fs_empty_doc
     = (None, demo_db, demo_fs_empty_doc)"
  using Delete_then_absent [OF demo_Delete_a] demo_Delete_a by blast

subsection \<open>Batches that commit\<close>



subsection \<open>Setting twice\<close>

text \<open>
  Claim C9. For every key \<open>k\<close> and value \<open>v\<close>: a second \<open>Set(k, v)\<close> right after a
  first returns and leaves the store in memory equal to the one the first left; when both
  return without an error the file system after the second equals the one after the
  first; and when the first returned without an error and no fault is injected into the
  second, the second returns without an error.
\<close>

theorem Set_twice:
  assumes "Set marshal db k v env1 fs = Returned (r1, db1, fs1)"
  shows "\<exists>r2 fs2. Set marshal db1 k v env2 fs1 = Returned (r2, db1, fs2) \<and>
           (r1 = None \<and> r2 = None \<longrightarrow> fs2 = fs1) \<and>
           (r1 = None \<and> env2 = no_write_faults \<longrightarrow> r2 = None)"
proof -
  from assms obtain m where m: "DB.data db = GoMap m"
    by (cases "DB.data db") (auto simp: Set_def)
  from assms m have db1: "db1 = db\<lparr>DB.data := GoMap (m(k \<mapsto> v))\<rparr>"
    and w1: "writeData marshal (filepath db) (GoMap (m(k \<mapsto> v))) env1 fs = (r1, fs1)"
    by (auto simp: Set_def persist_def Let_def split: prod.splits)
  obtain r2 fs2 where w2: "writeData marshal (filepath db) (GoMap (m(k \<mapsto> v))) env2 fs1 = (r2, fs2)"
    by (cases "writeData marshal (filepath db) (GoMap (m(k \<mapsto> v))) env2 fs1") blast
  have second: "Set marshal db1 k v env2 fs1 = Returned (r2, db1, fs2)"
    using w2 by (simp add: Set_def persist_def Let_def db1)
  have same: "fs2 = fs1" if "r1 = None" "r2 = None"
    using w1 w2 that by (auto simp: writeData_ok_iff)
  have ok: "r2 = None" if "r1 = None" "env2 = no_write_faults"
  proof -
    from w1 that have "writeData marshal (filepath db) (GoMap (m(k \<mapsto> v))) env1 fs = (None, fs1)"
      by simp
    then obtain b where "filepath db \<notin> dirs fs"
      and "marshal (GoMap (m(k \<mapsto> v))) = Inr b"
      and "fs1 = fs\<lparr>files := (files fs)(filepath db \<mapsto> b)\<rparr>"
      unfolding writeData_ok_iff by blast
    then have "writeData marshal (filepath db) (GoMap (m(k \<mapsto> v))) no_write_faults fs1 = (None, fs1)"
      unfolding writeData_ok_iff by (simp add: no_write_faults_def)
    with w2 that show ?thesis by simp
  qed
  from second same ok show ?thesis by blast
qed

theorem Set_twice_witness:
  "Set demo_marshal demo_db ''a'' 1 no_write_faults demo_fs = Returned (None, demo_db_a, demo_fs_a) \<and>
   Set demo_marshal demo_db_a ''a'' 1 no_write_faults demo_fs_a = Returned (None, demo_db_a, demo_fs_a)"
proof -
  from Set_twice [OF demo_Set_a, of no_write_faults] obtain r2 fs2 where
    "Set demo_marshal demo_db_a ''a'' 1 no_write_faults demo_fs_a = Returned (r2, demo_db_a, fs2)"
    "r2 = None" "fs2 = demo_fs_a"
    by auto
  with demo_Set_a show ?thesis by simp
qed

subsection \<open>Which calls create the file\<close>

text \<open>
  Claim C10, amended. \<open>Open\<close>, whether it succeeds or not, leaves every file as it
  was, so a location with no file has none afterwards; the only directories it adds are
  the containing directory and those above it. A \<open>Set\<close>, \<open>Delete\<close> or \<open>Transaction\<close>
  that returns without an error leaves at the location a file that holds the encoding of
  the new map. A persist that fails after the file was opened leaves a file there too.
\<close>

theorem Open_writes_no_file:
  "(Open Dir unmarshal fp oenv fs = (r, fs1) \<longrightarrow>
      files fs1 = files fs \<and> dirs fs \<subseteq> dirs fs1 \<and>
      dirs fs1 \<subseteq> dirs fs \<union> set (Dir fp # ancestors (Dir fp))) \<and>
   (Set marshal db k v env fs = Returned (None, db', fs')
      \<or> Delete marshal db k env fs = (None, db', fs')
      \<or> Transaction marshal db fn env fs = Returned (None, db', fs') \<longrightarrow>
      (\<exists>b. marshal (DB.data db') = Inr b \<and> files fs' (filepath db) = Some b)) \<and>
   (open_fault env = None \<and> filepath db \<notin> dirs fs \<and> persist marshal db env fs = (Some err, fs') \<longrightarrow>
      (\<exists>c. files fs' (filepath db) = Some c))"
proof -
  have a: "Open Dir unmarshal fp oenv fs = (r, fs1) \<longrightarrow>
      files fs1 = files fs \<and> dirs fs \<subseteq> dirs fs1 \<and>
      dirs fs1 \<subseteq> dirs fs \<union> set (Dir fp # ancestors (Dir fp))"
    using Open_fs by blast
  have b: "Set marshal db k v env fs = Returned (None, db', fs')
      \<or> Delete marshal db k env fs = (None, db', fs')
      \<or> Transaction marshal db fn env fs = Returned (None, db', fs') \<longrightarrow>
      (\<exists>b. marshal (DB.data db') = Inr b \<and> files fs' (filepath db) = Some b)"
  proof
    assume m: "Set marshal db k v env fs = Returned (None, db', fs')
      \<or> Delete marshal db k env fs = (None, db', fs')
      \<or> Transaction marshal db fn env fs = Returned (None, db', fs')"
    from mutation_ok_file [OF m] show "\<exists>b. marshal (DB.data db') = Inr b \<and> files fs' (filepath db) = Some b"
      by auto
  qed
  have c: "open_fault env = None \<and> filepath db \<notin> dirs fs \<and> persist marshal db env fs = (Some err, fs') \<longrightarrow>
      (\<exists>c. files fs' (filepath db) = Some c)"
    unfolding persist_def using writeData_failed_after_open by blast
  from a b c show ?thesis by blast
qed

theorem Open_writes_no_file_witness:
  "Open bare_Dir demo_unmarshal ''db.json'' no_open_faults demo_fs = (Inr demo_db, demo_fs) \<and>
   files demo_fs ''db.json'' = None \<and>
   Set demo_marshal demo_db ''a'' 1 no_write_faults demo_fs = Returned (None, demo_db_a, demo_fs_a) \<and>
   files demo_fs_a ''db.json'' = Some ''{a:1}'' \<and>
   persist demo_marshal demo_db_a disk_full demo_fs
     = (Some (ErrOS ''no space left on device''), demo_fs_zero) \<and>
   files demo_fs_zero ''db.json'' = Some []"
proof -
  note inst = Open_writes_no_file [where Dir = bare_Dir and unmarshal = demo_unmarshal
      and fp = "''db.json''" and oenv = no_open_faults and fs = demo_fs and r = "Inr demo_db"
      and ?fs1.0 = demo_fs and marshal = demo_marshal and k = "''a''" and v = 1
      and fn = failing_batch]
  from inst [of demo_db no_write_faults demo_db_a demo_fs_a] demo_Set_a obtain b where
    "demo_marshal (DB.data demo_db_a) = Inr b" and "files demo_fs_a (filepath demo_db) = Some b"
    by blast
  then have written: "files demo_fs_a ''db.json'' = Some ''{a:1}''"
    by (simp add: demo_db_def demo_db_a_def demo_marshal_def)
  have none: "files demo_fs ''db.json'' = None" by (simp add: demo_fs_def)
  have failed: "persist demo_marshal demo_db_a disk_full demo_fs
      = (Some (ErrOS ''no space left on device''), demo_fs_zero)"
    by (simp add: persist_def writeData_def OpenFile_def Encode_def demo_marshal_def
        demo_maps_differ demo_db_a_def demo_fs_def demo_fs_zero_def disk_full_def)
  have pre: "open_fault disk_full = None \<and> filepath demo_db_a \<notin> dirs demo_fs"
    by (simp add: disk_full_def demo_db_a_def demo_fs_def)
  from inst [of demo_db_a disk_full _ demo_fs_zero "ErrOS ''no space left on device''"] pre failed
  obtain c where "files demo_fs_zero (filepath demo_db_a) = Some c" by blast
  then have created: "files demo_fs_zero ''db.json'' = Some []"
    by (simp add: demo_db_a_def demo_fs_zero_def)
  from demo_Open_fresh none demo_Set_a written failed created show ?thesis by blast
qed

text \<open>
  Claim C10 as stated has the file first created by the first successful mutation. After
  an \<open>Open\<close> on a location with no file, a \<open>Set\<close> whose write fails on a full disk
  returns an error and has created the file, empty.
\<close>

theorem failed_Set_creates_file_counterexample:
  "Open bare_Dir demo_unmarshal ''db.json'' no_open_faults demo_fs = (Inr demo_db, demo_fs) \<and>
   files demo_fs ''db.json'' = None \<and>
   Set demo_marshal demo_db ''a'' 1 disk_full demo_fs
     = Returned (Some (ErrOS ''no space left on device''), demo_db_a, demo_fs_zero) \<and>
   files demo_fs_zero ''db.json'' = Some []"
  using demo_Open_fresh demo_Set_disk_full by (simp add: demo_fs_def demo_fs_zero_def)

end
